theory Spec2Isabelle
  imports Main
begin

section \<open>Python values and exceptions\<close>

text \<open>
  The script is Python 3. A \<open>str\<close> is modelled as a \<open>string\<close> whose characters are the
  code points below 256; the character classes of the \<open>re\<close> module are written out for
  that range. \<open>None\<close> is \<open>None\<close> of an option type. An exception that the script does
  not catch is the \<open>Inl\<close> of a sum type.
\<close>

datatype error =
    ValueError
  | TypeError
  | IndexError
  | AttributeError
  | KeyError
  | FileNotFoundError
  | OSError

section \<open>The regular expressions of the script\<close>

text \<open>
  The patterns of the script use literals, one-character classes, greedy \<open>+\<close> on a
  class, greedy \<open>?\<close>, concatenation, alternation and numbered groups. \<open>rmatch\<close> lists
  the ways a pattern can match a prefix of the input, in the order in which the
  backtracking matcher of \<open>re\<close> tries them: each way is the rest of the input and the
  groups set so far, the newest binding of a group first.
\<close>

datatype cclass =
    Digit
  | Word
  | NonSpace
  | AnyChar
  | NoneOf "char list"

definition is_digit :: "char \<Rightarrow> bool" where
  "is_digit c = (let n = (of_char c :: nat) in 48 \<le> n \<and> n \<le> 57)"

definition is_space :: "char \<Rightarrow> bool" where
  "is_space c =
     (let n = (of_char c :: nat)
      in (9 \<le> n \<and> n \<le> 13) \<or> (28 \<le> n \<and> n \<le> 32) \<or> n = 133 \<or> n = 160)"

definition is_alnum :: "char \<Rightarrow> bool" where
  "is_alnum c =
     (let n = (of_char c :: nat)
      in (48 \<le> n \<and> n \<le> 57) \<or> (65 \<le> n \<and> n \<le> 90) \<or> (97 \<le> n \<and> n \<le> 122)
         \<or> n = 170 \<or> n = 178 \<or> n = 179 \<or> n = 181 \<or> n = 185 \<or> n = 186
         \<or> (188 \<le> n \<and> n \<le> 190) \<or> (192 \<le> n \<and> n \<le> 214)
         \<or> (216 \<le> n \<and> n \<le> 246) \<or> (248 \<le> n \<and> n \<le> 255))"

fun in_class :: "cclass \<Rightarrow> char \<Rightarrow> bool" where
  "in_class Digit c = is_digit c"
| "in_class Word c = (is_alnum c \<or> c = CHR ''_'')"
| "in_class NonSpace c = (\<not> is_space c)"
| "in_class AnyChar c = (c \<noteq> CHR 0x0A)"
| "in_class (NoneOf cs) c = (c \<notin> set cs)"

datatype re =
    Lit string
  | Cls cclass
  | Plus cclass
  | Opt re
  | Seq re re
  | Alt re re
  | Grp nat re

type_synonym groups = "(nat \<times> string) list"

text \<open>Greedy \<open>+\<close> on a class: the longest run first, then each shorter one, never none.\<close>

definition plus_rests :: "cclass \<Rightarrow> string \<Rightarrow> string list" where
  "plus_rests k s =
     (let n = length (takeWhile (in_class k) s)
      in map (\<lambda>i. drop i s) (rev [1 ..< Suc n]))"

fun rmatch :: "re \<Rightarrow> string \<Rightarrow> groups \<Rightarrow> (string \<times> groups) list" where
  "rmatch (Lit l) s g = (if take (length l) s = l then [(drop (length l) s, g)] else [])"
| "rmatch (Cls k) s g =
     (case s of [] \<Rightarrow> [] | c # cs \<Rightarrow> if in_class k c then [(cs, g)] else [])"
| "rmatch (Plus k) s g = map (\<lambda>r. (r, g)) (plus_rests k s)"
| "rmatch (Opt r) s g = rmatch r s g @ [(s, g)]"
| "rmatch (Seq a b) s g = concat (map (\<lambda>(s', g'). rmatch b s' g') (rmatch a s g))"
| "rmatch (Alt a b) s g = rmatch a s g @ rmatch b s g"
| "rmatch (Grp n r) s g =
     map (\<lambda>(s', g'). (s', (n, take (length s - length s') s) # g')) (rmatch r s g)"

text \<open>\<open>regex.match\<close>: the first way to match at the start of the text.\<close>

definition re_match :: "re \<Rightarrow> string \<Rightarrow> (string \<times> groups) option" where
  "re_match r s = (case rmatch r s [] of [] \<Rightarrow> None | m # _ \<Rightarrow> Some m)"

text \<open>\<open>regex.search\<close>: the first start position, from the left, with a match.\<close>

fun re_search :: "re \<Rightarrow> string \<Rightarrow> groups option" where
  "re_search r [] = map_option snd (re_match r [])"
| "re_search r (c # cs) =
     (case re_match r (c # cs) of
        Some m \<Rightarrow> Some (snd m)
      | None \<Rightarrow> re_search r cs)"

text \<open>\<open>m.group(n)\<close> on a match; a group that took no part gives \<open>None\<close>.\<close>

definition group :: "groups \<Rightarrow> nat \<Rightarrow> string option" where
  "group g n = map_of g n"

fun seqs :: "re list \<Rightarrow> re" where
  "seqs [] = Lit []"
| "seqs [r] = r"
| "seqs (r # rs) = Seq r (seqs rs)"

text \<open>\<open>binds n r\<close>: every way through the pattern \<open>r\<close> passes a group numbered \<open>n\<close>.\<close>

fun binds :: "nat \<Rightarrow> re \<Rightarrow> bool" where
  "binds n (Lit l) = False"
| "binds n (Cls k) = False"
| "binds n (Plus k) = False"
| "binds n (Opt r) = False"
| "binds n (Seq a b) = (binds n a \<or> binds n b)"
| "binds n (Alt a b) = (binds n a \<and> binds n b)"
| "binds n (Grp m r) = (m = n \<or> binds n r)"

subsection \<open>\<open>search\<close>\<close>

text \<open>
  \<^verbatim>\<open>
  def search(regex_pattern, text):
      if not text:
          text = ''
      regex = re.compile(regex_pattern) # should include a group
      try:
          result = regex.search(text)
          if result:
              return result.group(1)
          else:
              return None
      except IndexError:
          return None
  \<close>
  A pattern without a group 1 raises \<open>IndexError\<close> at \<open>group(1)\<close>, which is caught and
  gives \<open>None\<close>; so does a group 1 that took no part in the match.
\<close>

definition search :: "re \<Rightarrow> string option \<Rightarrow> string option" where
  "search regex_pattern text =
     (let text' = (case text of None \<Rightarrow> [] | Some t \<Rightarrow> if t = [] then [] else t)
      in case re_search regex_pattern text' of
           Some result \<Rightarrow> group result 1
         | None \<Rightarrow> None)"

subsection \<open>The field patterns\<close>

text \<open>\<^verbatim>\<open>(\d+) kWp\<close>\<close>

definition kWp_re :: re where
  "kWp_re = seqs [Grp 1 (Plus Digit), Lit '' kWp'']"

text \<open>\<^verbatim>\<open>installed on [^,]+,(?: located in )?([^\n]+)\.?\n\<close>\<close>

definition location_re :: re where
  "location_re =
     seqs [Lit ''installed on '', Plus (NoneOf '',''), Lit '','',
           Opt (Lit '' located in ''), Grp 1 (Plus (NoneOf [CHR 0x0A])),
           Opt (Lit ''.''), Lit [CHR 0x0A]]"

text \<open>\<^verbatim>\<open>installed on ([^,\.]+),\<close>\<close>

definition water_body_type_re :: re where
  "water_body_type_re =
     seqs [Lit ''installed on '', Grp 1 (Plus (NoneOf '',.'')), Lit '','']"

text \<open>\<^verbatim>\<open>(\d+) panels\<close>\<close>

definition panel_number_re :: re where
  "panel_number_re = seqs [Grp 1 (Plus Digit), Lit '' panels'']"

text \<open>\<^verbatim>\<open>\(([^\)]+(?:modules|panels))\<close>\<close>

definition panel_type_re :: re where
  "panel_type_re =
     seqs [Lit ''('', Grp 1 (Seq (Plus (NoneOf '')''))
                                 (Alt (Lit ''modules'') (Lit ''panels'')))]"

text \<open>\<^verbatim>\<open>covers (?:about )?([^%]+) ?%\<close>\<close>

definition covers_pct_re :: re where
  "covers_pct_re =
     seqs [Lit ''covers '', Opt (Lit ''about ''), Grp 1 (Plus (NoneOf ''%'')),
           Opt (Lit '' ''), Lit ''%'']"

text \<open>\<^verbatim>\<open>\((\S+) out of (\S+) ha\).\<close>\<close>

definition covers_re :: re where
  "covers_re =
     seqs [Lit ''('', Grp 1 (Plus NonSpace), Lit '' out of '', Grp 2 (Plus NonSpace),
           Lit '' ha)'', Cls AnyChar]"

text \<open>\<^verbatim>\<open>a maximum depth of (\S+) m\<close>\<close>

definition max_depth_re :: re where
  "max_depth_re = seqs [Lit ''a maximum depth of '', Grp 1 (Plus NonSpace), Lit '' m'']"

text \<open>\<^verbatim>\<open>variation of (\S+) m\<close>\<close>

definition level_variation_re :: re where
  "level_variation_re = seqs [Lit ''variation of '', Grp 1 (Plus NonSpace), Lit '' m'']"

text \<open>\<^verbatim>\<open>effective in ((?:\w+ ){0,1}\d+)\<close>\<close>

definition interconnect_re :: re where
  "interconnect_re =
     seqs [Lit ''effective in '',
           Grp 1 (Seq (Opt (Seq (Plus Word) (Lit '' ''))) (Plus Digit))]"

text \<open>\<^verbatim>\<open>construction lasted (\d+ (days|weeks?|months))\<close>\<close>

definition construction_re :: re where
  "construction_re =
     seqs [Lit ''construction lasted '',
           Grp 1 (seqs [Plus Digit, Lit '' '',
                        Grp 2 (Alt (Lit ''days'')
                                 (Alt (Seq (Lit ''week'') (Opt (Lit ''s''))) (Lit ''months'')))])]"

section \<open>Dates\<close>

text \<open>
  \<open>datetime.date\<close> and \<open>datetime.datetime\<close> of the standard library. A difference of
  two datetimes (a \<open>timedelta\<close>) is its number of microseconds; \<open>toordinal\<close> follows
  the proleptic Gregorian calendar as the library does.
\<close>

datatype date = Date (year: nat) (month: nat) (day: nat)

datatype datetime =
  Datetime (date_of: date) (hour: nat) (minute: nat) (second: nat) (microsecond: nat)

definition is_leap :: "nat \<Rightarrow> bool" where
  "is_leap y = (y mod 4 = 0 \<and> (y mod 100 \<noteq> 0 \<or> y mod 400 = 0))"

definition days_before_year :: "nat \<Rightarrow> int" where
  "days_before_year y =
     (let y1 = int y - 1 in y1 * 365 + y1 div 4 - y1 div 100 + y1 div 400)"

definition days_in_month :: "nat \<Rightarrow> nat \<Rightarrow> nat" where
  "days_in_month y m =
     (if m = 2 \<and> is_leap y then 29
      else [31, 28, 31, 30, 31, 30, 31, 31, 30, 31, 30, 31] ! (m - 1))"

definition days_before_month :: "nat \<Rightarrow> nat \<Rightarrow> int" where
  "days_before_month y m = int (sum_list (map (days_in_month y) [1 ..< m]))"

definition toordinal :: "date \<Rightarrow> int" where
  "toordinal d = days_before_year (year d) + days_before_month (year d) (month d) + int (day d)"

definition to_micros :: "datetime \<Rightarrow> int" where
  "to_micros t =
     (((toordinal (date_of t) * 24 + int (hour t)) * 60 + int (minute t)) * 60
        + int (second t)) * 1000000 + int (microsecond t)"

text \<open>\<open>a - b\<close> on datetimes and \<open>timedelta(days=n)\<close>, both in microseconds.\<close>

definition datetime_sub :: "datetime \<Rightarrow> datetime \<Rightarrow> int" where
  "datetime_sub a b = to_micros a - to_micros b"

definition timedelta_days :: "int \<Rightarrow> int" where
  "timedelta_days n = n * 86400 * 1000000"

subsection \<open>\<open>datetime.strptime\<close>\<close>

text \<open>
  The script calls \<open>strptime\<close> with three formats: \<^verbatim>\<open>%B %Y\<close>, \<^verbatim>\<open>%Y\<close> and \<^verbatim>\<open>%Y-%m\<close>.
  The library turns a format into a regular expression (\<^verbatim>\<open>%Y\<close> is four digits,
  \<^verbatim>\<open>%m\<close> is \<^verbatim>\<open>1[0-2]|0[1-9]|[1-9]\<close>, \<^verbatim>\<open>%B\<close> is the month names of the locale, longest
  first and in any case, a blank of the format is \<^verbatim>\<open>\s+\<close>), matches it at the start
  of the string and raises \<open>ValueError\<close> when there is no match, when text remains
  after the match, or when the year is 0. A first argument that is not a \<open>str\<close> raises
  \<open>TypeError\<close>. Month and day default to 1, the time to midnight. The month names are
  those of the English locale.
\<close>

datatype format = B_Y | Y | Y_m

definition month_names :: "string list" where
  "month_names =
     [''january'', ''february'', ''march'', ''april'', ''may'', ''june'', ''july'',
      ''august'', ''september'', ''october'', ''november'', ''december'']"

definition lower_char :: "char \<Rightarrow> char" where
  "lower_char c =
     (let n = (of_char c :: nat) in if 65 \<le> n \<and> n \<le> 90 then char_of (n + 32) else c)"

text \<open>The name that the data starts with, whatever its case, longest name first.\<close>

definition month_B :: "string \<Rightarrow> (nat \<times> string) option" where
  "month_B s =
     (case filter (\<lambda>nm. map lower_char (take (length nm) s) = nm)
             [''september'', ''february'', ''november'', ''december'', ''january'',
              ''october'', ''august'', ''march'', ''april'', ''june'', ''july'', ''may''] of
        [] \<Rightarrow> None
      | nm # _ \<Rightarrow>
          Some (Suc (length (takeWhile (\<lambda>x. x \<noteq> nm) month_names)), drop (length nm) s))"

definition digit_val :: "char \<Rightarrow> nat" where
  "digit_val c = of_char c - 48"

definition int_of_digits :: "string \<Rightarrow> nat" where
  "int_of_digits s = foldl (\<lambda>acc c. acc * 10 + digit_val c) 0 s"

text \<open>\<^verbatim>\<open>%Y\<close>: exactly four digits.\<close>

definition year_Y :: "string \<Rightarrow> (nat \<times> string) option" where
  "year_Y s =
     (if 4 \<le> length s \<and> list_all is_digit (take 4 s)
      then Some (int_of_digits (take 4 s), drop 4 s) else None)"

text \<open>\<^verbatim>\<open>%m\<close>: \<^verbatim>\<open>1[0-2]\<close>, else \<^verbatim>\<open>0[1-9]\<close>, else \<^verbatim>\<open>[1-9]\<close>.\<close>

definition month_m :: "string \<Rightarrow> (nat \<times> string) option" where
  "month_m s =
     (case s of
        a # b # rest \<Rightarrow>
          if a = CHR ''1'' \<and> b \<in> set ''012'' then Some (10 + digit_val b, rest)
          else if a = CHR ''0'' \<and> b \<in> set ''123456789'' then Some (digit_val b, rest)
          else if a \<in> set ''123456789'' then Some (digit_val a, b # rest)
          else None
      | [a] \<Rightarrow> if a \<in> set ''123456789'' then Some (digit_val a, []) else None
      | [] \<Rightarrow> None)"

text \<open>What the regular expression of a format finds: year, month and the text left over.\<close>

fun found :: "format \<Rightarrow> string \<Rightarrow> (nat \<times> nat \<times> string) option" where
  "found Y s = (case year_Y s of None \<Rightarrow> None | Some (y, rest) \<Rightarrow> Some (y, 1, rest))"
| "found Y_m s =
     (case year_Y s of
        None \<Rightarrow> None
      | Some (y, rest) \<Rightarrow>
          (case rest of
             [] \<Rightarrow> None
           | c # rest' \<Rightarrow>
               if c \<noteq> CHR ''-'' then None
               else (case month_m rest' of
                       None \<Rightarrow> None
                     | Some (m, rest'') \<Rightarrow> Some (y, m, rest''))))"
| "found B_Y s =
     (case month_B s of
        None \<Rightarrow> None
      | Some (m, rest) \<Rightarrow>
          (let rest' = dropWhile is_space rest
           in if rest' = rest then None
              else (case year_Y rest' of
                      None \<Rightarrow> None
                    | Some (y, rest'') \<Rightarrow> Some (y, m, rest''))))"

definition strptime :: "string option \<Rightarrow> format \<Rightarrow> error + datetime" where
  "strptime data_string fmt =
     (case data_string of
        None \<Rightarrow> Inl TypeError
      | Some s \<Rightarrow>
          (case found fmt s of
             None \<Rightarrow> Inl ValueError
           | Some (y, m, rest) \<Rightarrow>
               if rest \<noteq> [] then Inl ValueError
               else if y = 0 then Inl ValueError
               else Inr (Datetime (Date y m 1) 0 0 0 0)))"

section \<open>Tables\<close>

text \<open>
  The two tables of the script, \<open>df\<close> and \<open>last_downloaded\<close>, are pandas frames: row
  labels, column labels and cells. A cell that was never assigned is missing (NaN).
  \<open>loc_set\<close> is the assignment \<^verbatim>\<open>frame.loc[row, column] = value\<close>, which adds the row
  and the column when they are new.
\<close>

datatype pyval = PNone | PStr string | PDate date | PDatetime datetime

record frame =
  index :: "string list"
  columns :: "string list"
  cells :: "string \<times> string \<Rightarrow> pyval option"

definition DataFrame :: "string list \<Rightarrow> frame" where
  "DataFrame cols = \<lparr>index = [], columns = cols, cells = Map.empty\<rparr>"

definition loc_set :: "frame \<Rightarrow> string \<Rightarrow> string \<Rightarrow> pyval \<Rightarrow> frame" where
  "loc_set f row col v =
     \<lparr>index = (if row \<in> set (index f) then index f else index f @ [row]),
      columns = (if col \<in> set (columns f) then columns f else columns f @ [col]),
      cells = (cells f)((row, col) \<mapsto> v)\<rparr>"

definition of_search :: "string option \<Rightarrow> pyval" where
  "of_search r = (case r of None \<Rightarrow> PNone | Some s \<Rightarrow> PStr s)"

section \<open>Field Extractor\<close>

text \<open>
  \<^verbatim>\<open>
  def parse_basic(text, title):
      df.loc[title, 'kWp'] = search(r'(\d+) kWp', text)
      df.loc[title, 'location'] = search(
          r'installed on [^,]+,(?: located in )?([^\n]+)\.?\n', text
          )
      df.loc[title, 'water_body_type'] = search(r'installed on ([^,\.]+),', text)
  \<close>
\<close>

definition parse_basic :: "string \<Rightarrow> string \<Rightarrow> frame \<Rightarrow> frame" where
  "parse_basic text title df =
     (let df1 = loc_set df title ''kWp'' (of_search (search kWp_re (Some text)));
          df2 = loc_set df1 title ''location'' (of_search (search location_re (Some text)));
          df3 = loc_set df2 title ''water_body_type''
                  (of_search (search water_body_type_re (Some text)))
      in df3)"

text \<open>
  \<^verbatim>\<open>
  def parse_system(text, title):
      df.loc[title, 'panel_number'] = search(r'(\d+) panels', text)
      df.loc[title, 'panel_type'] = search(r'\(([^\)]+(?:modules|panels))', text)
      df.loc[title, 'covers_pct'] = search(r'covers (?:about )?([^%]+) ?%', text)
      regex = re.compile(r'\((\S+) out of (\S+) ha\).')
      results = regex.search(text)
      if results:
          try:
              covers_panels = results.group(1)
          except IndexError:
              covers_panels = None
          try:
              covers_total = results.group(2)
          except IndexError:
              covers_total = None
      else:
          covers_panels = covers_total = None
      df.loc[title, 'covers_panels'] = covers_panels
      df.loc[title, 'covers_total'] = covers_total
  \<close>
\<close>

definition parse_system :: "string \<Rightarrow> string \<Rightarrow> frame \<Rightarrow> frame" where
  "parse_system text title df =
     (let df1 = loc_set df title ''panel_number''
                  (of_search (search panel_number_re (Some text)));
          df2 = loc_set df1 title ''panel_type'' (of_search (search panel_type_re (Some text)));
          df3 = loc_set df2 title ''covers_pct'' (of_search (search covers_pct_re (Some text)));
          results = re_search covers_re text;
          covers_panels = (case results of Some m \<Rightarrow> group m 1 | None \<Rightarrow> None);
          covers_total = (case results of Some m \<Rightarrow> group m 2 | None \<Rightarrow> None);
          df4 = loc_set df3 title ''covers_panels'' (of_search covers_panels);
          df5 = loc_set df4 title ''covers_total'' (of_search covers_total)
      in df5)"

text \<open>
  \<^verbatim>\<open>
  def parse_advanced(text, title):
      df.loc[title, 'max_depth'] = search(r'a maximum depth of (\S+) m', text)
      df.loc[title, 'level_variation'] = search(r'variation of (\S+) m', text)
  \<close>
\<close>

definition parse_advanced :: "string \<Rightarrow> string \<Rightarrow> frame \<Rightarrow> frame" where
  "parse_advanced text title df =
     (let df1 = loc_set df title ''max_depth'' (of_search (search max_depth_re (Some text)));
          df2 = loc_set df1 title ''level_variation''
                  (of_search (search level_variation_re (Some text)))
      in df2)"

text \<open>
  \<^verbatim>\<open>
  def parse_date(text, title):
      interconnect_str = search(r'effective in ((?:\w+ ){0,1}\d+)', text)
      try:
          interconnect_date = datetime.strptime(interconnect_str, '%B %Y')
      except ValueError:
          interconnect_date = datetime.strptime(interconnect_str, '%Y')
      construction_duration = search(
          r'construction lasted (\d+ (days|weeks?|months))', text
          )
      df.loc[title, 'interconnection_date'] = interconnect_date
      df.loc[title, 'construction_duration'] = construction_duration
  \<close>
  Only \<open>ValueError\<close> is caught; the \<open>TypeError\<close> of \<open>strptime(None, ...)\<close> leaves the
  function, and so does the \<open>ValueError\<close> of the second call.
\<close>

definition parse_date :: "string \<Rightarrow> string \<Rightarrow> frame \<Rightarrow> error + frame" where
  "parse_date text title df =
     (let interconnect_str = search interconnect_re (Some text);
          attempt = (case strptime interconnect_str B_Y of
                       Inl ValueError \<Rightarrow> strptime interconnect_str Y
                     | r \<Rightarrow> r)
      in case attempt of
           Inl e \<Rightarrow> Inl e
         | Inr interconnect_date \<Rightarrow>
             (let construction_duration = search construction_re (Some text);
                  df1 = loc_set df title ''interconnection_date'' (PDatetime interconnect_date);
                  df2 = loc_set df1 title ''construction_duration''
                          (of_search construction_duration)
              in Inr df2))"

text \<open>
  \<^verbatim>\<open>
  def parse_page(page, title):
      ps = []
      for p in page.xpath('//div[contains(@class, "content-article")]//p/text()'):
          if p:
              ps.append(p.replace(u'\xa0', ' ').strip())
      text  = '\n'.join(ps)
      if text:
          parse_basic(text, title)
          parse_system(text, title)
          parse_advanced(text, title)
          parse_date(text, title)
  \<close>
  The text nodes that the XPath query finds in the page are the argument \<open>nodes\<close>.
\<close>

definition replace_nbsp :: "string \<Rightarrow> string" where
  "replace_nbsp p = map (\<lambda>c. if c = CHR 0xA0 then CHR '' '' else c) p"

definition strip :: "string \<Rightarrow> string" where
  "strip p = rev (dropWhile is_space (rev (dropWhile is_space p)))"

fun join_nl :: "string list \<Rightarrow> string" where
  "join_nl [] = []"
| "join_nl [p] = p"
| "join_nl (p # ps) = p @ [CHR 0x0A] @ join_nl ps"

definition page_text :: "string list \<Rightarrow> string" where
  "page_text nodes = join_nl (map (\<lambda>p. strip (replace_nbsp p)) (filter (\<lambda>p. p \<noteq> []) nodes))"

definition parse_page :: "string list \<Rightarrow> string \<Rightarrow> frame \<Rightarrow> error + frame" where
  "parse_page nodes title df =
     (let text = page_text nodes
      in if text \<noteq> []
         then parse_date text title (parse_advanced text title (parse_system text title
                (parse_basic text title df)))
         else Inr df)"

section \<open>Dataset Builder\<close>

text \<open>
  The post-processing pass applies a function to every cell of a column. The cells hold
  what \<open>search\<close> returned, a \<open>str\<close> or \<open>None\<close>. The conversions \<open>float\<close> and \<open>int\<close> of
  a \<open>str\<close> are arguments (\<open>py_float\<close>, \<open>py_int\<close>): each gives the number or raises.

  The script at the top of the repository:
  \<^verbatim>\<open>
  make_decimal = lambda s: float(s.replace(',', '.')) if s else None
  df['kWp'] = df['kWp'].apply(lambda s: int(s))
  df['panel_number'] = df['panel_number'].apply(lambda s: int(s))
  \<close>
  \<open>int(None)\<close> raises \<open>TypeError\<close>.
\<close>

definition replace_comma :: "string \<Rightarrow> string" where
  "replace_comma s = map (\<lambda>c. if c = CHR '','' then CHR ''.'' else c) s"


definition kWp_to_int :: "(string \<Rightarrow> error + int) \<Rightarrow> string option \<Rightarrow> error + int" where
  "kWp_to_int py_int s = (case s of None \<Rightarrow> Inl TypeError | Some t \<Rightarrow> py_int t)"

definition panel_number_to_int :: "(string \<Rightarrow> error + int) \<Rightarrow> string option \<Rightarrow> error + int" where
  "panel_number_to_int py_int s = (case s of None \<Rightarrow> Inl TypeError | Some t \<Rightarrow> py_int t)"

text \<open>
  The copy of the script in the package directory:
  \<^verbatim>\<open>
  def make_decimal(s):
      if s is str:
          return float(s.replace(',', '.'))
  df['kWp'] = df['kWp'].apply(lambda s: int(s) if not pd.isnull(s) else 0)
  \<close>
  \<open>s is str\<close> asks whether \<open>s\<close> is the class \<open>str\<close> itself, which no cell is, so the
  function falls off its end and returns \<open>None\<close>. \<open>pd.isnull\<close> holds of \<open>None\<close>. The
  line of this copy for \<open>panel_number\<close> is a conditional expression without its
  \<open>else\<close>; it has no value to model.
\<close>

definition is_str_class :: "string option \<Rightarrow> bool" where
  "is_str_class s = False"

definition make_decimal_pkg :: "(string \<Rightarrow> error + 'f) \<Rightarrow> string option \<Rightarrow> error + 'f option" where
  "make_decimal_pkg py_float s =
     (if is_str_class s
      then (case s of
              None \<Rightarrow> Inl AttributeError
            | Some t \<Rightarrow> map_sum id Some (py_float (replace_comma t)))
      else Inr None)"

definition isnull :: "string option \<Rightarrow> bool" where
  "isnull s = (s = None)"

definition kWp_to_int_pkg :: "(string \<Rightarrow> error + int) \<Rightarrow> string option \<Rightarrow> error + int" where
  "kWp_to_int_pkg py_int s =
     (if \<not> isnull s then (case s of None \<Rightarrow> Inl TypeError | Some t \<Rightarrow> py_int t) else Inr 0)"

section \<open>Fetcher\<close>

text \<open>
  \<^verbatim>\<open>
  def fetch(target):
      if not re.match(r'^http://www.ciel-et-terre.net', target):
          if not re.match('^/', target):
              target = '/' + target
          target = 'http://www.ciel-et-terre.net' + target
      fetched = requests.get(target)
      if fetched.status_code == 200:
          return html.fromstring(fetched.content.decode())
      else:
          raise ValueError('Status code {}'.format(fetched.status_code))
  \<close>
  The dots of the first pattern are not escaped: each matches any character but a
  newline. \<open>fetch_target\<close> is the value of \<open>target\<close> when the request is made.
\<close>

definition site_root :: string where
  "site_root = ''http://www.ciel-et-terre.net''"

definition site_re :: re where
  "site_re = seqs [Lit ''http://www'', Cls AnyChar, Lit ''ciel-et-terre'', Cls AnyChar, Lit ''net'']"

definition slash_re :: re where
  "slash_re = Lit ''/''"

definition fetch_target :: "string \<Rightarrow> string" where
  "fetch_target target =
     (if re_match site_re target = None
      then (let target1 = (if re_match slash_re target = None then ''/'' @ target else target)
            in site_root @ target1)
      else target)"

text \<open>
  The world outside the script: what \<open>requests.get\<close> answers for an address, and what
  \<open>lxml\<close> finds in a document (the serialised \<open>div.content-article\<close> elements of a
  fetched page, in document order, and the paragraph text nodes of a cached file).
\<close>

record response =
  status_code :: nat
  content :: string

record web =
  http_get :: "string \<Rightarrow> response"
  articles :: "string \<Rightarrow> string list"
  paragraphs :: "string \<Rightarrow> string list"

text \<open>
  What the script changes: the files of the projects directory, the ledger in memory
  (\<open>last_downloaded\<close>), the ledger file \<open>last_downloaded.csv\<close>, and the requests made
  so far. A function that raises returns the exception with the state it left behind.
\<close>

record csv_file =
  rows :: "string list"
  header :: "string list"
  field_at :: "string \<times> string \<Rightarrow> string option"

record world =
  files :: "string \<Rightarrow> string option"
  last_downloaded :: frame
  ledger_csv :: "csv_file option"
  requests :: "string list"

definition fetch :: "web \<Rightarrow> string \<Rightarrow> world \<Rightarrow> error \<times> world + string \<times> world" where
  "fetch env target w =
     (let url = fetch_target target;
          w1 = w\<lparr>requests := requests w @ [url]\<rparr>;
          fetched = http_get env url
      in if status_code fetched = 200 then Inr (content fetched, w1)
         else Inl (ValueError, w1))"

section \<open>Cache Manager\<close>

subsection \<open>The ledger file\<close>

text \<open>
  \<open>to_csv\<close> writes a date as \<open>YYYY-MM-DD\<close>, a datetime as \<open>YYYY-MM-DD HH:MM:SS\<close> (with
  the microseconds when there are any), and nothing for \<open>None\<close>, NaN or the empty
  string. \<open>read_csv\<close> reads a field that is not a number back as a \<open>str\<close> and an empty
  field as NaN; the dates written here are not numbers.
\<close>

definition digit_char :: "nat \<Rightarrow> char" where
  "digit_char n = char_of (48 + n mod 10)"

definition pad2 :: "nat \<Rightarrow> string" where
  "pad2 n = [digit_char (n div 10), digit_char n]"

definition pad4 :: "nat \<Rightarrow> string" where
  "pad4 n = [digit_char (n div 1000), digit_char (n div 100), digit_char (n div 10), digit_char n]"

definition pad6 :: "nat \<Rightarrow> string" where
  "pad6 n = pad2 (n div 10000) @ pad4 n"

definition isoformat :: "date \<Rightarrow> string" where
  "isoformat d = pad4 (year d) @ ''-'' @ pad2 (month d) @ ''-'' @ pad2 (day d)"

definition str_datetime :: "datetime \<Rightarrow> string" where
  "str_datetime t =
     isoformat (date_of t) @ '' '' @ pad2 (hour t) @ '':'' @ pad2 (minute t) @ '':''
       @ pad2 (second t) @ (if microsecond t = 0 then [] else ''.'' @ pad6 (microsecond t))"

fun csv_field :: "pyval \<Rightarrow> string option" where
  "csv_field PNone = None"
| "csv_field (PStr s) = (if s = [] then None else Some s)"
| "csv_field (PDate d) = Some (isoformat d)"
| "csv_field (PDatetime t) = Some (str_datetime t)"

definition to_csv :: "frame \<Rightarrow> csv_file" where
  "to_csv f =
     \<lparr>rows = index f, header = columns f,
      field_at = (\<lambda>k. case cells f k of None \<Rightarrow> None | Some v \<Rightarrow> csv_field v)\<rparr>"

definition read_csv :: "csv_file \<Rightarrow> frame" where
  "read_csv c =
     \<lparr>index = rows c, columns = header c,
      cells = (\<lambda>k. case field_at c k of None \<Rightarrow> None | Some s \<Rightarrow> Some (PStr s))\<rparr>"

text \<open>
  \<^verbatim>\<open>
  if os.path.exists('last_downloaded.csv'):
      last_downloaded = pd.read_csv('last_downloaded.csv', index_col=0)
  else:
      last_downloaded = pd.DataFrame(columns=['last_downloaded'])
  \<close>
\<close>

definition load_ledger :: "world \<Rightarrow> world" where
  "load_ledger w =
     w\<lparr>last_downloaded :=
         (case ledger_csv w of
            Some c \<Rightarrow> read_csv c
          | None \<Rightarrow> DataFrame [''last_downloaded''])\<rparr>"

subsection \<open>\<open>download_page\<close>\<close>

text \<open>
  \<^verbatim>\<open>
  def download_page(li, title):
      page = get_page(li)
      with open(title, 'w') as target_file:
          target_file.write(
              html.etree.tostring(
                  page.cssselect('div.content-article')[0]
                  ).decode().strip()
              )
      last_downloaded.loc[title, 'last_download'] = now.date()
      last_downloaded.to_csv('last_downloaded.csv')
  \<close>
  \<open>get_page(li)\<close> is \<open>fetch\<close> of the link of the list item (the copy in the package
  directory takes the link itself). The file is opened, and so created empty, before
  the article is looked for.
\<close>

definition download_page :: "web \<Rightarrow> datetime \<Rightarrow> string \<Rightarrow> string \<Rightarrow> world \<Rightarrow> error \<times> world + world" where
  "download_page env now link title w =
     (case fetch env link w of
        Inl ew \<Rightarrow> Inl ew
      | Inr (page, w1) \<Rightarrow>
          (case articles env page of
             [] \<Rightarrow> Inl (IndexError, w1\<lparr>files := (files w1)(title \<mapsto> [])\<rparr>)
           | a # _ \<Rightarrow>
               (let w2 = w1\<lparr>files := (files w1)(title \<mapsto> a)\<rparr>;
                    w3 = w2\<lparr>last_downloaded :=
                              loc_set (last_downloaded w2) title ''last_download''
                                (PDate (date_of now))\<rparr>;
                    w4 = w3\<lparr>ledger_csv := Some (to_csv (last_downloaded w3))\<rparr>
                in Inr w4)))"

subsection \<open>The cache decision of \<open>get_projects\<close>\<close>

text \<open>
  \<^verbatim>\<open>
  title = '{}-{}'.format(name, kwp)
  file_path = 'ciel_et_terre_projects/{}.html'.format(title)
  if not os.path.exists(file_path):
      if title in last_downloaded.index:
          recency = datetime.strptime(
              last_downloaded.loc[title, 'last_downloaded'], '%Y-%m'
              )
          if now - recency > timedelta(days=30):
              download_page(li, file_path)
          else:
              pass
      else:
          download_page(li, file_path)
  with open(file_path) as f:
      page = html.fromstring(f.read())
  parse_page(page, title)
  \<close>
  \<open>loc_get\<close> is the read \<^verbatim>\<open>frame.loc[row, column]\<close>: \<open>KeyError\<close> for a label that the
  frame does not have, NaN (\<open>None\<close> here) for a cell never assigned. \<open>strptime\<close> gets
  a \<open>str\<close> only when the cell holds one.
\<close>

definition loc_get :: "frame \<Rightarrow> string \<Rightarrow> string \<Rightarrow> error + pyval option" where
  "loc_get f row col =
     (if row \<in> set (index f) \<and> col \<in> set (columns f) then Inr (cells f (row, col))
      else Inl KeyError)"

definition str_of_cell :: "pyval option \<Rightarrow> string option" where
  "str_of_cell v = (case v of Some (PStr s) \<Rightarrow> Some s | _ \<Rightarrow> None)"

definition project_title :: "string \<Rightarrow> string \<Rightarrow> string" where
  "project_title name kwp = name @ ''-'' @ kwp"

definition project_file :: "string \<Rightarrow> string" where
  "project_file title = ''ciel_et_terre_projects/'' @ title @ ''.html''"

definition cache_block :: "web \<Rightarrow> datetime \<Rightarrow> string \<Rightarrow> string \<Rightarrow> world \<Rightarrow> error \<times> world + world" where
  "cache_block env now title link w =
     (let file_path = project_file title
      in if files w file_path = None
         then if title \<in> set (index (last_downloaded w))
              then (case loc_get (last_downloaded w) title ''last_downloaded'' of
                      Inl e \<Rightarrow> Inl (e, w)
                    | Inr v \<Rightarrow>
                        (case strptime (str_of_cell v) Y_m of
                           Inl e \<Rightarrow> Inl (e, w)
                         | Inr recency \<Rightarrow>
                             if datetime_sub now recency > timedelta_days 30
                             then download_page env now link file_path w
                             else Inr w))
              else download_page env now link file_path w
         else Inr w)"

definition project_step ::
    "web \<Rightarrow> datetime \<Rightarrow> string \<Rightarrow> string \<Rightarrow> string \<Rightarrow> world \<times> frame \<Rightarrow> error \<times> world + world \<times> frame" where
  "project_step env now name kwp link wd =
     (let title = project_title name kwp
      in case cache_block env now title link (fst wd) of
           Inl ew \<Rightarrow> Inl ew
         | Inr w1 \<Rightarrow>
             (case files w1 (project_file title) of
                None \<Rightarrow> Inl (FileNotFoundError, w1)
              | Some f \<Rightarrow>
                  (case parse_page (paragraphs env f) title (snd wd) of
                     Inl e \<Rightarrow> Inl (e, w1)
                   | Inr df1 \<Rightarrow> Inr (w1, df1))))"

text \<open>The state that a call leaves behind, whether it returned or raised.\<close>

definition world_after :: "error \<times> world + world \<Rightarrow> world" where
  "world_after r = (case r of Inl ew \<Rightarrow> snd ew | Inr w \<Rightarrow> w)"

subsection \<open>The listing page of \<open>get_projects\<close>\<close>

text \<open>
  \<^verbatim>\<open>
  if 'main' in last_downloaded.index:
      main = html.parse('ciel_et_terre_projects/main.html').getroot()
  else:
      main = fetch('our-floating-solar-power-plants-references/')
      with open('ciel_et_terre_projects/main.html', 'w') as f:
          f.write(html.tostring(main).decode())
      last_downloaded.loc['main', 'last_downloaded'] = now.date()
  \<close>
  \<open>html.parse\<close> raises \<open>OSError\<close> for a file that does not exist. The ledger file is
  not written here. \<open>get_projects_to\<close> is \<open>get_projects\<close> from its start to the end of
  the cache decision for a project of the listing page, given by its title and link.
\<close>

definition main_file :: string where
  "main_file = ''ciel_et_terre_projects/main.html''"

definition main_block :: "web \<Rightarrow> datetime \<Rightarrow> world \<Rightarrow> error \<times> world + string \<times> world" where
  "main_block env now w =
     (if ''main'' \<in> set (index (last_downloaded w))
      then (case files w main_file of
              None \<Rightarrow> Inl (OSError, w)
            | Some f \<Rightarrow> Inr (f, w))
      else (case fetch env ''our-floating-solar-power-plants-references/'' w of
              Inl ew \<Rightarrow> Inl ew
            | Inr (page, w1) \<Rightarrow>
                (let w2 = w1\<lparr>files := (files w1)(main_file \<mapsto> page)\<rparr>;
                     w3 = w2\<lparr>last_downloaded :=
                               loc_set (last_downloaded w2) ''main'' ''last_downloaded''
                                 (PDate (date_of now))\<rparr>
                 in Inr (page, w3))))"

definition get_projects_to :: "web \<Rightarrow> datetime \<Rightarrow> string \<Rightarrow> string \<Rightarrow> world \<Rightarrow> error \<times> world + world" where
  "get_projects_to env now title link w =
     (case main_block env now w of
        Inl ew \<Rightarrow> Inl ew
      | Inr (main, w1) \<Rightarrow> cache_block env now title link w1)"

section \<open>The Fetcher's contract in the words of the specification\<close>

text \<open>
  The specification says that a target that is not already absolute is prefixed with
  the site root, ``ensuring exactly one separating slash''. \<open>spec_resolved\<close> follows
  these words: the site root, one slash, and the given path without the slashes it
  starts with. It is compared with \<open>fetch_target\<close>, which follows the code.
\<close>

definition spec_resolved :: "string \<Rightarrow> string" where
  "spec_resolved target = site_root @ ''/'' @ dropWhile (\<lambda>c. c = CHR ''/'') target"

section \<open>Example states\<close>

text \<open>
  A site that answers every request with status 200 and a page holding one article,
  and three states of the script for the project titled \<open>A-1\<close>: nothing on disk and an
  empty ledger; nothing on disk and a ledger row for the title, dated March 2019 in
  the form that \<open>get_projects\<close> reads; the detail page on disk.
\<close>

definition example_web :: web where
  "example_web =
     \<lparr>http_get = (\<lambda>url. \<lparr>status_code = 200, content = ''<html/>''\<rparr>),
      articles = (\<lambda>page. [''<div/>'']),
      paragraphs = (\<lambda>f. [])\<rparr>"

definition empty_world :: world where
  "empty_world =
     \<lparr>files = Map.empty, last_downloaded = DataFrame [], ledger_csv = None, requests = []\<rparr>"

definition ledger_world :: world where
  "ledger_world =
     \<lparr>files = Map.empty,
      last_downloaded = loc_set (DataFrame [''last_downloaded'']) ''A-1'' ''last_downloaded''
                          (PStr ''2019-03''),
      ledger_csv = None, requests = []\<rparr>"

definition cached_world :: world where
  "cached_world =
     \<lparr>files = [project_file ''A-1'' \<mapsto> ''<div/>''],
      last_downloaded = DataFrame [''last_downloaded''],
      ledger_csv = None, requests = []\<rparr>"



text \<open>
  A first run on 5 March 2019 that starts with nothing, loads the ledger, fetches the
  listing page and reaches the project \<open>A-1\<close>; and the start of a second run, after
  the detail page was removed from the disk: the ledger is loaded again from the file
  that the first run wrote, and no request has been made yet.
\<close>

definition first_run :: world where
  "first_run =
     world_after (get_projects_to example_web (Datetime (Date 2019 3 5) 10 0 0 0) ''A-1'' ''a''
                    (load_ledger empty_world))"

definition second_start :: world where
  "second_start =
     load_ledger (first_run\<lparr>files := (files first_run)(project_file ''A-1'' := None),
                              requests := []\<rparr>)"

section \<open>Field Extractor: the examples\<close>

lemma search_location_example:
  "search location_re (Some (''installed on a reservoir, located in Japan.'' @ [CHR 0x0A]))
     = Some ''Japan.''"
  by code_simp

lemma search_water_example:
  "search water_body_type_re (Some (''installed on a reservoir, located in Japan.'' @ [CHR 0x0A]))
     = Some ''a reservoir''"
  by code_simp

text \<open>
  Claim C5. For the text \<^verbatim>\<open>installed on a reservoir, located in Japan.\n\<close> the
  water-body type is \<open>a reservoir\<close>, and the location that \<open>parse_basic\<close> stores is
  \<open>Japan.\<close>, with the full stop: the greedy \<^verbatim>\<open>[^\n]+\<close> of the location pattern takes
  the full stop, and the \<^verbatim>\<open>\.?\<close> after it matches nothing.
\<close>

theorem location_example_keeps_period:
  "cells (parse_basic (''installed on a reservoir, located in Japan.'' @ [CHR 0x0A]) title df)
     (title, ''location'') = Some (PStr ''Japan.'')
   \<and> cells (parse_basic (''installed on a reservoir, located in Japan.'' @ [CHR 0x0A]) title df)
     (title, ''water_body_type'') = Some (PStr ''a reservoir'')"
  unfolding parse_basic_def Let_def
  by (simp only: search_location_example search_water_example)
     (simp add: loc_set_def of_search_def)

lemma search_interconnect_month:
  "search interconnect_re (Some ''effective in March 2019'') = Some ''March 2019''"
  by code_simp

lemma search_interconnect_year:
  "search interconnect_re (Some ''effective in 2019'') = Some ''2019''"
  by code_simp

lemma search_construction_month:
  "search construction_re (Some ''effective in March 2019'') = None"
  by code_simp

lemma search_construction_year:
  "search construction_re (Some ''effective in 2019'') = None"
  by code_simp

lemma strptime_month:
  "strptime (Some ''March 2019'') B_Y = Inr (Datetime (Date 2019 3 1) 0 0 0 0)"
  by code_simp

lemma strptime_year_B_Y: "strptime (Some ''2019'') B_Y = Inl ValueError"
  by code_simp

lemma strptime_year_Y:
  "strptime (Some ''2019'') Y = Inr (Datetime (Date 2019 1 1) 0 0 0 0)"
  by code_simp

text \<open>
  Claim C7. The phrase after \<open>effective in\<close> is read as month and year first and as a
  bare year when that fails: \<open>effective in March 2019\<close> gives the first of March 2019,
  and for \<open>effective in 2019\<close> the month-and-year reading raises \<open>ValueError\<close> and the
  year reading gives the first of January 2019.
\<close>

theorem parse_date_examples:
  "parse_date ''effective in March 2019'' title df =
     Inr (loc_set (loc_set df title ''interconnection_date''
                     (PDatetime (Datetime (Date 2019 3 1) 0 0 0 0)))
            title ''construction_duration'' PNone)
   \<and> strptime (search interconnect_re (Some ''effective in 2019'')) B_Y = Inl ValueError
   \<and> parse_date ''effective in 2019'' title df =
     Inr (loc_set (loc_set df title ''interconnection_date''
                     (PDatetime (Datetime (Date 2019 1 1) 0 0 0 0)))
            title ''construction_duration'' PNone)"
  unfolding parse_date_def Let_def
  by (simp add: search_interconnect_month search_interconnect_year search_construction_month
        search_construction_year strptime_month strptime_year_B_Y strptime_year_Y of_search_def)

section \<open>Field Extractor: absent fields\<close>

lemma search_no_match: "re_search p text = None \<Longrightarrow> search p (Some text) = None"
  by (simp add: search_def)

lemma cells_loc_set_same: "cells (loc_set f r c v) (r, c) = Some v"
  by (simp add: loc_set_def)

lemma cells_loc_set_other:
  "(r', c') \<noteq> (r, c) \<Longrightarrow> cells (loc_set f r c v) (r', c') = cells f (r', c')"
  by (auto simp: loc_set_def)

lemma parse_basic_no_match:
  "re_search kWp_re text = None \<Longrightarrow>
     cells (parse_basic text title df) (title, ''kWp'') = Some PNone"
  "re_search location_re text = None \<Longrightarrow>
     cells (parse_basic text title df) (title, ''location'') = Some PNone"
  "re_search water_body_type_re text = None \<Longrightarrow>
     cells (parse_basic text title df) (title, ''water_body_type'') = Some PNone"
  by (simp_all add: parse_basic_def Let_def search_no_match of_search_def
        cells_loc_set_same cells_loc_set_other)

lemma parse_system_no_match:
  "re_search panel_number_re text = None \<Longrightarrow>
     cells (parse_system text title df) (title, ''panel_number'') = Some PNone"
  "re_search panel_type_re text = None \<Longrightarrow>
     cells (parse_system text title df) (title, ''panel_type'') = Some PNone"
  "re_search covers_pct_re text = None \<Longrightarrow>
     cells (parse_system text title df) (title, ''covers_pct'') = Some PNone"
  "re_search covers_re text = None \<Longrightarrow>
     cells (parse_system text title df) (title, ''covers_panels'') = Some PNone
     \<and> cells (parse_system text title df) (title, ''covers_total'') = Some PNone"
  by (simp_all add: parse_system_def Let_def search_no_match of_search_def
        cells_loc_set_same cells_loc_set_other)

lemma parse_advanced_no_match:
  "re_search max_depth_re text = None \<Longrightarrow>
     cells (parse_advanced text title df) (title, ''max_depth'') = Some PNone"
  "re_search level_variation_re text = None \<Longrightarrow>
     cells (parse_advanced text title df) (title, ''level_variation'') = Some PNone"
  by (simp_all add: parse_advanced_def Let_def search_no_match of_search_def
        cells_loc_set_same cells_loc_set_other)

lemma strptime_None: "strptime None fmt = Inl TypeError"
  by (simp add: strptime_def)

lemma parse_date_no_match:
  "re_search interconnect_re text = None \<Longrightarrow> parse_date text title df = Inl TypeError"
  by (simp add: parse_date_def Let_def search_no_match strptime_None)

lemma parse_date_duration_no_match:
  "re_search construction_re text = None \<Longrightarrow> parse_date text title df = Inr df' \<Longrightarrow>
     cells df' (title, ''construction_duration'') = Some PNone"
  by (auto simp: parse_date_def Let_def search_no_match of_search_def cells_loc_set_same
      split: sum.splits error.splits)

text \<open>
  Claim C3. When a text has no match for a pattern, \<open>search\<close> returns \<open>None\<close> and
  raises nothing, whatever the pattern; so each field other than the interconnection
  date is stored as \<open>None\<close> by the function that extracts it (the construction
  duration by \<open>parse_date\<close>, when that returns). When the text has no match for the
  interconnection-date pattern, \<open>parse_date\<close> raises: \<open>strptime\<close> is given \<open>None\<close>,
  and its \<open>TypeError\<close> is not caught.
\<close>

theorem no_match_is_null_except_date:
  "(re_search p text = None \<longrightarrow> search p (Some text) = None)
   \<and> (re_search kWp_re text = None \<longrightarrow>
        cells (parse_basic text title df) (title, ''kWp'') = Some PNone)
   \<and> (re_search location_re text = None \<longrightarrow>
        cells (parse_basic text title df) (title, ''location'') = Some PNone)
   \<and> (re_search water_body_type_re text = None \<longrightarrow>
        cells (parse_basic text title df) (title, ''water_body_type'') = Some PNone)
   \<and> (re_search panel_number_re text = None \<longrightarrow>
        cells (parse_system text title df) (title, ''panel_number'') = Some PNone)
   \<and> (re_search panel_type_re text = None \<longrightarrow>
        cells (parse_system text title df) (title, ''panel_type'') = Some PNone)
   \<and> (re_search covers_pct_re text = None \<longrightarrow>
        cells (parse_system text title df) (title, ''covers_pct'') = Some PNone)
   \<and> (re_search covers_re text = None \<longrightarrow>
        cells (parse_system text title df) (title, ''covers_panels'') = Some PNone
        \<and> cells (parse_system text title df) (title, ''covers_total'') = Some PNone)
   \<and> (re_search max_depth_re text = None \<longrightarrow>
        cells (parse_advanced text title df) (title, ''max_depth'') = Some PNone)
   \<and> (re_search level_variation_re text = None \<longrightarrow>
        cells (parse_advanced text title df) (title, ''level_variation'') = Some PNone)
   \<and> (re_search construction_re text = None \<longrightarrow>
        (\<forall>df'. parse_date text title df = Inr df' \<longrightarrow>
           cells df' (title, ''construction_duration'') = Some PNone))
   \<and> (re_search interconnect_re text = None \<longrightarrow> parse_date text title df = Inl TypeError)"
  using search_no_match[of p "text"] parse_basic_no_match[of "text" title df]
    parse_system_no_match[of "text" title df] parse_advanced_no_match[of "text" title df]
    parse_date_no_match[of "text" title df] parse_date_duration_no_match[of "text" title df]
  by blast

lemma no_fields_searches:
  "re_search kWp_re ''no fields'' = None"
  "re_search location_re ''no fields'' = None"
  "re_search water_body_type_re ''no fields'' = None"
  "re_search panel_number_re ''no fields'' = None"
  "re_search panel_type_re ''no fields'' = None"
  "re_search covers_pct_re ''no fields'' = None"
  "re_search covers_re ''no fields'' = None"
  "re_search max_depth_re ''no fields'' = None"
  "re_search level_variation_re ''no fields'' = None"
  "re_search construction_re ''no fields'' = None"
  "re_search interconnect_re ''no fields'' = None"
  by code_simp+

lemma parse_date_year_returns:
  "\<exists>df'. parse_date ''effective in 2019'' title df = Inr df'"
  unfolding parse_date_def Let_def
  by (simp add: search_interconnect_year search_construction_year strptime_year_B_Y
        strptime_year_Y of_search_def)

theorem no_match_is_null_except_date_witness:
  "re_search kWp_re ''no fields'' = None
   \<and> search kWp_re (Some ''no fields'') = None
   \<and> cells (parse_basic ''no fields'' ''A-1'' (DataFrame [])) (''A-1'', ''kWp'') = Some PNone
   \<and> cells (parse_basic ''no fields'' ''A-1'' (DataFrame [])) (''A-1'', ''location'') = Some PNone
   \<and> cells (parse_system ''no fields'' ''A-1'' (DataFrame [])) (''A-1'', ''covers_total'')
       = Some PNone
   \<and> cells (parse_advanced ''no fields'' ''A-1'' (DataFrame [])) (''A-1'', ''max_depth'')
       = Some PNone
   \<and> re_search interconnect_re ''no fields'' = None
   \<and> parse_date ''no fields'' ''A-1'' (DataFrame []) = Inl TypeError
   \<and> re_search construction_re ''effective in 2019'' = None
   \<and> (\<exists>df'. parse_date ''effective in 2019'' ''A-1'' (DataFrame []) = Inr df'
         \<and> cells df' (''A-1'', ''construction_duration'') = Some PNone)"
proof -
  have c: "re_search construction_re ''effective in 2019'' = None" by code_simp
  from parse_date_year_returns [of "''A-1''" "DataFrame []"]
  obtain df' where d: "parse_date ''effective in 2019'' ''A-1'' (DataFrame []) = Inr df'" ..
  show ?thesis
    using no_match_is_null_except_date[of kWp_re "''no fields''" "''A-1''" "DataFrame []"]
      no_match_is_null_except_date[of kWp_re "''effective in 2019''" "''A-1''" "DataFrame []"]
      no_fields_searches c d
    by blast
qed

section \<open>Field Extractor: the area pair\<close>

lemma rmatch_keeps:
  "(s', g') \<in> set (rmatch r s g) \<Longrightarrow> map_of g n \<noteq> None \<Longrightarrow> map_of g' n \<noteq> None"
proof (induction r arbitrary: s g s' g')
  case (Seq a b)
  then show ?case by (auto split: if_splits)
qed (auto split: if_splits list.splits)

lemma rmatch_binds:
  "binds n r \<Longrightarrow> (s', g') \<in> set (rmatch r s g) \<Longrightarrow> map_of g' n \<noteq> None"
proof (induction r arbitrary: s g s' g')
  case (Seq a b)
  from Seq.prems(2) obtain s1 g1 where
    a: "(s1, g1) \<in> set (rmatch a s g)" and b: "(s', g') \<in> set (rmatch b s1 g1)"
    by auto
  show ?case
  proof (cases "binds n a")
    case True
    from Seq.IH(1)[OF True a] have "map_of g1 n \<noteq> None" .
    with b show ?thesis by (rule rmatch_keeps)
  next
    case False
    with Seq.prems(1) have "binds n b" by simp
    from Seq.IH(2)[OF this b] show ?thesis .
  qed
next
  case (Grp m r)
  then show ?case by (auto split: if_splits)
qed auto

lemma re_match_binds:
  "binds n r \<Longrightarrow> re_match r s = Some m \<Longrightarrow> group (snd m) n \<noteq> None"
  unfolding re_match_def group_def
  by (cases "rmatch r s []")
     (auto dest: rmatch_binds[where s = s and g = "[]"] simp: list.set_intros)

lemma re_search_binds:
  "binds n r \<Longrightarrow> re_search r s = Some g \<Longrightarrow> group g n \<noteq> None"
proof (induction s)
  case Nil
  then show ?case by (auto dest: re_match_binds)
next
  case (Cons c cs)
  then show ?case by (auto split: option.splits dest: re_match_binds)
qed

lemma covers_binds: "binds 1 covers_re" "binds 2 covers_re"
  by (simp_all add: covers_re_def)

text \<open>
  Claim C8. For every text, \<open>parse_system\<close> stores the covered area and the total
  area either both as text or both as \<open>None\<close>: the two groups of the pattern
  \<^verbatim>\<open>\((\S+) out of (\S+) ha\).\<close> lie on every way through it, so a match sets both, and
  without a match both are \<open>None\<close>.
\<close>

theorem covers_pair_together:
  "(\<exists>a b. cells (parse_system text title df) (title, ''covers_panels'') = Some (PStr a)
          \<and> cells (parse_system text title df) (title, ''covers_total'') = Some (PStr b))
   \<or> (cells (parse_system text title df) (title, ''covers_panels'') = Some PNone
       \<and> cells (parse_system text title df) (title, ''covers_total'') = Some PNone)"
proof (cases "re_search covers_re text")
  case None
  then show ?thesis
    by (simp add: parse_system_def Let_def of_search_def cells_loc_set_same cells_loc_set_other)
next
  case (Some g)
  from re_search_binds[OF covers_binds(1) Some] obtain a where a: "group g 1 = Some a" by auto
  from re_search_binds[OF covers_binds(2) Some] obtain b where b: "group g 2 = Some b" by auto
  show ?thesis
    using Some a b
    by (simp add: parse_system_def Let_def of_search_def cells_loc_set_same cells_loc_set_other)
qed

section \<open>Field Extractor: a page without text\<close>

text \<open>
  Claim C10. When the paragraph text of a page is empty, \<open>parse_page\<close> returns without
  an exception and leaves the table as it was: no extractor runs, the
  interconnection-date extraction included.
\<close>

theorem parse_page_empty: "page_text nodes = [] \<Longrightarrow> parse_page nodes title df = Inr df"
  by (simp add: parse_page_def)

theorem parse_page_empty_witness:
  "page_text [''  '', ''''] = []
   \<and> parse_page [''  '', ''''] ''A-1'' (DataFrame []) = Inr (DataFrame [])"
proof -
  have h: "page_text [''  '', ''''] = []" by code_simp
  show ?thesis using h parse_page_empty[OF h, of "''A-1''" "DataFrame []"] by simp
qed

section \<open>Fetcher: the address requested\<close>

lemma slash_test: "(re_match slash_re target = None) = (take 1 target \<noteq> ''/'')"
  by (cases target) (auto simp: re_match_def slash_re_def)

lemma fetch_target_absolute: "fetch_target (site_root @ rest) = site_root @ rest"
  by (simp add: fetch_target_def re_match_def site_re_def site_root_def)

text \<open>
  Claim C9, as amended. For every target that the pattern test of \<open>fetch\<close> does not
  take for an address of the site, the address requested is the site root followed by
  the target, with a slash put between them exactly when the target does not begin
  with one. So one slash separates the root from the path, as the specification says,
  whenever the target does not begin with two slashes.
\<close>

theorem fetch_target_prefix:
  "re_match site_re target = None \<Longrightarrow>
     fetch_target target = site_root @ (if take 1 target = ''/'' then target else ''/'' @ target)
     \<and> (take 2 target \<noteq> ''//'' \<longrightarrow> fetch_target target = spec_resolved target)"
proof -
  assume h: "re_match site_re target = None"
  have 1: "fetch_target target
      = site_root @ (if take 1 target = ''/'' then target else ''/'' @ target)"
    using h by (simp add: fetch_target_def slash_test Let_def)
  have 2: "take 2 target \<noteq> ''//'' \<Longrightarrow> fetch_target target = spec_resolved target"
  proof (cases target)
    case Nil
    then show ?thesis using 1 by (simp add: spec_resolved_def)
  next
    case (Cons c cs)
    assume n: "take 2 target \<noteq> ''//''"
    show ?thesis
    proof (cases "c = CHR ''/''")
      case True
      with n Cons have "cs = [] \<or> hd cs \<noteq> CHR ''/''" by (cases cs) auto
      then have "dropWhile (\<lambda>c. c = CHR ''/'') cs = cs" by (cases cs) auto
      with True Cons 1 show ?thesis by (simp add: spec_resolved_def)
    next
      case False
      with Cons 1 show ?thesis by (simp add: spec_resolved_def)
    qed
  qed
  from 1 2 show ?thesis by blast
qed

theorem fetch_target_prefix_witness:
  "re_match site_re ''our-floating-solar-power-plants-references/'' = None
   \<and> fetch_target ''our-floating-solar-power-plants-references/''
       = ''http://www.ciel-et-terre.net/our-floating-solar-power-plants-references/''
   \<and> take 2 ''our-floating-solar-power-plants-references/'' \<noteq> ''//''
   \<and> fetch_target ''our-floating-solar-power-plants-references/''
       = spec_resolved ''our-floating-solar-power-plants-references/''"
proof -
  have h: "re_match site_re ''our-floating-solar-power-plants-references/'' = None"
    by code_simp
  show ?thesis
    using h fetch_target_prefix[OF h] by (simp add: site_root_def spec_resolved_def)
qed

text \<open>
  The claim as it is written fails for a target that begins with two slashes, such as a
  link without its scheme: the test for a leading slash is satisfied, nothing is
  removed, and two slashes follow the site root.
\<close>

theorem fetch_target_double_slash_counterexample:
  "re_match site_re ''//a'' = None
   \<and> fetch_target ''//a'' = ''http://www.ciel-et-terre.net//a''
   \<and> fetch_target ''//a'' \<noteq> spec_resolved ''//a''"
  by code_simp

section \<open>Dataset Builder: decimal and integer fields\<close>



text \<open>
  The \<open>make_decimal\<close> of the copy in the package directory would return \<open>None\<close> for
  every cell, \<open>3,2\<close> included, and never call the conversion. That copy has a line
  that is not valid Python, so it is not a script that runs.
\<close>

lemma make_decimal_pkg_returns_None:
  "make_decimal_pkg py_float (Some ''3,2'') = Inr None
   \<and> make_decimal_pkg py_float s = Inr None"
  by (simp add: make_decimal_pkg_def is_str_class_def)

text \<open>
  Claim C6, as amended. In the script at the top of the repository an absent capacity
  and an absent panel count are both fatal: \<open>int(None)\<close> raises \<open>TypeError\<close> and
  neither has a fallback. The default 0 for an absent capacity is that of the copy in
  the package directory.
\<close>

theorem absent_integer_fields:
  "kWp_to_int py_int None = Inl TypeError
   \<and> panel_number_to_int py_int None = Inl TypeError
   \<and> kWp_to_int_pkg py_int None = Inr 0"
  by (simp add: kWp_to_int_def panel_number_to_int_def kWp_to_int_pkg_def isnull_def)

text \<open>
  The claim as it is written fails on the script at the top of the repository: an
  absent capacity does not give 0 there.
\<close>

theorem absent_capacity_counterexample:
  "kWp_to_int (\<lambda>s. Inr 0) None = Inl TypeError \<and> kWp_to_int (\<lambda>s. Inr 0) None \<noteq> Inr 0"
  by (simp add: kWp_to_int_def)

section \<open>Cache Manager: the decision\<close>

lemma download_page_requests:
  "requests (world_after (download_page env now link path w)) = requests w @ [fetch_target link]"
  by (simp add: download_page_def fetch_def world_after_def Let_def split: list.splits)

lemma world_after_Inr: "world_after (Inr w) = w"
  by (simp add: world_after_def)

lemma cache_block_cached:
  "files w (project_file title) \<noteq> None \<Longrightarrow> cache_block env now title link w = Inr w"
  by (auto simp: cache_block_def Let_def)

lemma cache_block_unknown:
  "files w (project_file title) = None \<Longrightarrow> title \<notin> set (index (last_downloaded w)) \<Longrightarrow>
     cache_block env now title link w = download_page env now link (project_file title) w"
  by (simp add: cache_block_def Let_def)

lemma cache_block_known:
  "files w (project_file title) = None \<Longrightarrow> title \<in> set (index (last_downloaded w)) \<Longrightarrow>
   ''last_downloaded'' \<in> set (columns (last_downloaded w)) \<Longrightarrow>
   cells (last_downloaded w) (title, ''last_downloaded'') = Some (PStr s) \<Longrightarrow>
   strptime (Some s) Y_m = Inr recency \<Longrightarrow>
     cache_block env now title link w =
       (if datetime_sub now recency > timedelta_days 30
        then download_page env now link (project_file title) w else Inr w)"
  by (simp add: cache_block_def Let_def loc_get_def str_of_cell_def)

lemma skip_then_file_not_found:
  "files w (project_file (project_title name kwp)) = None \<Longrightarrow>
   cache_block env now (project_title name kwp) link w = Inr w \<Longrightarrow>
   project_step env now name kwp link (w, df) = Inl (FileNotFoundError, w)"
  by (simp add: project_step_def Let_def)

text \<open>
  What the cache decision does for a project: when its detail-page file exists, nothing
  is requested and the state is unchanged; when the file is absent and the title is not
  in the ledger, \<open>download_page\<close> runs and one request is made; when the file is absent
  and the ledger holds, for the title, a text of the form that the code reads (year and
  month), \<open>download_page\<close> runs if and only if more than 30 days have passed since that
  date, and otherwise nothing is requested and the file stays absent.
\<close>

lemma cache_decision:
  "(files w (project_file title) \<noteq> None \<longrightarrow> cache_block env now title link w = Inr w)
   \<and> (files w (project_file title) = None \<and> title \<notin> set (index (last_downloaded w)) \<longrightarrow>
        cache_block env now title link w = download_page env now link (project_file title) w
        \<and> requests (world_after (cache_block env now title link w))
            = requests w @ [fetch_target link])
   \<and> (files w (project_file title) = None \<and> title \<in> set (index (last_downloaded w))
        \<and> ''last_downloaded'' \<in> set (columns (last_downloaded w))
        \<and> cells (last_downloaded w) (title, ''last_downloaded'') = Some (PStr s)
        \<and> strptime (Some s) Y_m = Inr recency \<longrightarrow>
        (if datetime_sub now recency > timedelta_days 30
         then cache_block env now title link w
                = download_page env now link (project_file title) w
              \<and> requests (world_after (cache_block env now title link w))
                  = requests w @ [fetch_target link]
         else cache_block env now title link w = Inr w
              \<and> requests (world_after (cache_block env now title link w)) = requests w
              \<and> files (world_after (cache_block env now title link w)) (project_file title)
                  = None))"
proof (intro conjI impI)
  assume "files w (project_file title) \<noteq> None"
  then show "cache_block env now title link w = Inr w" by (rule cache_block_cached)
next
  assume a: "files w (project_file title) = None \<and> title \<notin> set (index (last_downloaded w))"
  then show "cache_block env now title link w
      = download_page env now link (project_file title) w"
    by (simp add: cache_block_unknown)
  from a show "requests (world_after (cache_block env now title link w))
      = requests w @ [fetch_target link]"
    by (simp add: cache_block_unknown download_page_requests)
next
  assume a: "files w (project_file title) = None \<and> title \<in> set (index (last_downloaded w))
        \<and> ''last_downloaded'' \<in> set (columns (last_downloaded w))
        \<and> cells (last_downloaded w) (title, ''last_downloaded'') = Some (PStr s)
        \<and> strptime (Some s) Y_m = Inr recency"
  then have e: "cache_block env now title link w =
       (if datetime_sub now recency > timedelta_days 30
        then download_page env now link (project_file title) w else Inr w)"
    by (simp add: cache_block_known)
  from a have f: "files w (project_file title) = None" by simp
  show "if datetime_sub now recency > timedelta_days 30
         then cache_block env now title link w
                = download_page env now link (project_file title) w
              \<and> requests (world_after (cache_block env now title link w))
                  = requests w @ [fetch_target link]
         else cache_block env now title link w = Inr w
              \<and> requests (world_after (cache_block env now title link w)) = requests w
              \<and> files (world_after (cache_block env now title link w)) (project_file title)
                  = None"
    using e f by (simp add: download_page_requests world_after_Inr)
qed

lemma strptime_ledger_month:
  "strptime (Some ''2019-03'') Y_m = Inr (Datetime (Date 2019 3 1) 0 0 0 0)"
  by code_simp

lemma elapsed_fresh:
  "\<not> datetime_sub (Datetime (Date 2019 3 20) 9 30 0 0) (Datetime (Date 2019 3 1) 0 0 0 0)
       > timedelta_days 30"
  by code_simp

lemma elapsed_stale:
  "datetime_sub (Datetime (Date 2019 5 2) 9 30 0 0) (Datetime (Date 2019 3 1) 0 0 0 0)
     > timedelta_days 30"
  by code_simp

lemma isoformat_example: "isoformat (Date 2019 3 5) = ''2019-03-05''"
  by code_simp


lemma fetch_target_a: "fetch_target ''a'' = ''http://www.ciel-et-terre.net/a''"
  by code_simp

lemma fetch_target_main:
  "fetch_target ''our-floating-solar-power-plants-references/''
     = ''http://www.ciel-et-terre.net/our-floating-solar-power-plants-references/''"
  by code_simp

lemma cache_decision_examples:
  "files cached_world (project_file ''A-1'') \<noteq> None
   \<and> cache_block example_web (Datetime (Date 2019 3 20) 9 30 0 0) ''A-1'' ''a'' cached_world
       = Inr cached_world
   \<and> files empty_world (project_file ''A-1'') = None
   \<and> ''A-1'' \<notin> set (index (last_downloaded empty_world))
   \<and> requests (world_after
         (cache_block example_web (Datetime (Date 2019 3 20) 9 30 0 0) ''A-1'' ''a'' empty_world))
       = [''http://www.ciel-et-terre.net/a'']
   \<and> files ledger_world (project_file ''A-1'') = None
   \<and> ''A-1'' \<in> set (index (last_downloaded ledger_world))
   \<and> cells (last_downloaded ledger_world) (''A-1'', ''last_downloaded'') = Some (PStr ''2019-03'')
   \<and> strptime (Some ''2019-03'') Y_m = Inr (Datetime (Date 2019 3 1) 0 0 0 0)
   \<and> cache_block example_web (Datetime (Date 2019 3 20) 9 30 0 0) ''A-1'' ''a'' ledger_world
       = Inr ledger_world
   \<and> requests (world_after
         (cache_block example_web (Datetime (Date 2019 5 2) 9 30 0 0) ''A-1'' ''a'' ledger_world))
       = [''http://www.ciel-et-terre.net/a'']"
proof -
  let ?fresh = "Datetime (Date 2019 3 20) 9 30 0 0"
  let ?stale = "Datetime (Date 2019 5 2) 9 30 0 0"
  have f1: "files cached_world (project_file ''A-1'') \<noteq> None"
    by (simp add: cached_world_def)
  have f2: "files empty_world (project_file ''A-1'') = None"
    "''A-1'' \<notin> set (index (last_downloaded empty_world))"
    "requests empty_world = []"
    by (simp_all add: empty_world_def DataFrame_def)
  have f3: "files ledger_world (project_file ''A-1'') = None"
    "''A-1'' \<in> set (index (last_downloaded ledger_world))"
    "''last_downloaded'' \<in> set (columns (last_downloaded ledger_world))"
    "cells (last_downloaded ledger_world) (''A-1'', ''last_downloaded'') = Some (PStr ''2019-03'')"
    "requests ledger_world = []"
    by (simp_all add: ledger_world_def DataFrame_def loc_set_def)
  note t = fetch_target_a
  note p = strptime_ledger_month
  have c1: "cache_block example_web ?fresh ''A-1'' ''a'' cached_world = Inr cached_world"
    by (rule cache_decision[THEN conjunct1, rule_format, OF f1])
  have "requests (world_after (cache_block example_web ?fresh ''A-1'' ''a'' empty_world))
      = requests empty_world @ [fetch_target ''a'']"
    by (rule cache_decision[THEN conjunct2, THEN conjunct1, rule_format, THEN conjunct2])
       (simp add: f2)
  then have c2: "requests (world_after (cache_block example_web ?fresh ''A-1'' ''a'' empty_world))
      = [''http://www.ciel-et-terre.net/a'']"
    by (simp only: f2 t append_Nil)
  have h3: "files ledger_world (project_file ''A-1'') = None
      \<and> ''A-1'' \<in> set (index (last_downloaded ledger_world))
      \<and> ''last_downloaded'' \<in> set (columns (last_downloaded ledger_world))
      \<and> cells (last_downloaded ledger_world) (''A-1'', ''last_downloaded'')
          = Some (PStr ''2019-03'')
      \<and> strptime (Some ''2019-03'') Y_m = Inr (Datetime (Date 2019 3 1) 0 0 0 0)"
    using f3 p by blast
  note fresh = cache_decision[where env = example_web and link = "''a''"
          and now = "Datetime (Date 2019 3 20) 9 30 0 0",
        THEN conjunct2, THEN conjunct2, rule_format, OF h3,
        unfolded if_not_P[OF elapsed_fresh]]
  note stale = cache_decision[where env = example_web and link = "''a''"
          and now = "Datetime (Date 2019 5 2) 9 30 0 0",
        THEN conjunct2, THEN conjunct2, rule_format, OF h3,
        unfolded if_P[OF elapsed_stale]]
  have c3: "cache_block example_web ?fresh ''A-1'' ''a'' ledger_world = Inr ledger_world"
    by (rule fresh[THEN conjunct1])
  have "requests (world_after (cache_block example_web ?stale ''A-1'' ''a'' ledger_world))
      = requests ledger_world @ [fetch_target ''a'']"
    by (rule stale[THEN conjunct2])
  then have c4: "requests (world_after (cache_block example_web ?stale ''A-1'' ''a'' ledger_world))
      = [''http://www.ciel-et-terre.net/a'']"
    by (simp only: f3 t append_Nil)
  show ?thesis using f1 f2 f3 p c1 c2 c3 c4 by blast
qed





text \<open>
  A cell of the row that was never assigned, or one that still holds the date object of
  the same run, is not a \<open>str\<close>: then \<open>strptime\<close> raises \<open>TypeError\<close>, and again nothing
  is requested.
\<close>

lemma cache_block_not_str:
  "files w (project_file title) = None \<Longrightarrow> title \<in> set (index (last_downloaded w)) \<Longrightarrow>
   ''last_downloaded'' \<in> set (columns (last_downloaded w)) \<Longrightarrow>
   str_of_cell (cells (last_downloaded w) (title, ''last_downloaded'')) = None \<Longrightarrow>
     cache_block env now title link w = Inl (TypeError, w)"
  by (simp add: cache_block_def Let_def loc_get_def strptime_None)

section \<open>Cache Manager: the ledger written and read back\<close>

lemma project_file_not_title: "project_file title \<noteq> title"
proof
  assume "project_file title = title"
  then have "length (project_file title) = length title" by simp
  then show False by (simp add: project_file_def)
qed

lemma index_loc_set:
  "index (loc_set f row col v) = (if row \<in> set (index f) then index f else index f @ [row])"
  by (simp add: loc_set_def)

lemma download_page_ledger:
  assumes "download_page env now link path w = Inr w'"
  shows "last_downloaded w'
      = loc_set (last_downloaded w) path ''last_download'' (PDate (date_of now))"
    and "ledger_csv w' = Some (to_csv (last_downloaded w'))"
  using assms
  by (auto simp: download_page_def fetch_def Let_def split: if_splits list.splits)

lemma index_reload: "index (read_csv (to_csv f)) = index f"
  by (simp add: read_csv_def to_csv_def)

text \<open>
  Whatever the title: the row that \<open>download_page\<close> adds to the ledger is labelled with
  the path of the file, so after a reload the title is still not a row of the ledger,
  and with the file gone the next run downloads again, at any time.
\<close>

lemma download_never_registers_title:
  assumes "title \<notin> set (index (last_downloaded w))"
    and "download_page env now link (project_file title) w = Inr w'"
  shows "title \<notin> set (index (last_downloaded (load_ledger (w'\<lparr>files := fs\<rparr>))))"
proof -
  from download_page_ledger[OF assms(2)]
  have "index (last_downloaded (load_ledger (w'\<lparr>files := fs\<rparr>))) = index (last_downloaded w')"
    by (simp add: load_ledger_def index_reload)
  also from download_page_ledger(1)[OF assms(2)]
  have "set (index (last_downloaded w'))
      = insert (project_file title) (set (index (last_downloaded w)))"
    by (auto simp: index_loc_set)
  finally show ?thesis using assms(1) project_file_not_title[of title] by auto
qed

lemma redownload_after_reload:
  assumes "files w (project_file title) = None"
    and "title \<notin> set (index (last_downloaded w))"
    and "cache_block env now title link w = Inr w'"
  shows "cache_block env now' title link (load_ledger (w'\<lparr>files := Map.empty\<rparr>))
         = download_page env now' link (project_file title)
             (load_ledger (w'\<lparr>files := Map.empty\<rparr>))"
proof -
  from assms have d: "download_page env now link (project_file title) w = Inr w'"
    by (simp add: cache_block_unknown)
  have "files (load_ledger (w'\<lparr>files := Map.empty\<rparr>)) (project_file title) = None"
    by (simp add: load_ledger_def)
  moreover note download_never_registers_title[OF assms(2) d, of Map.empty]
  ultimately show ?thesis by (rule cache_block_unknown)
qed

lemma first_run_requests:
  "requests first_run
     = [''http://www.ciel-et-terre.net/our-floating-solar-power-plants-references/'',
        ''http://www.ciel-et-terre.net/a'']"
  by (simp add: first_run_def get_projects_to_def main_block_def world_after_def cache_block_def
      load_ledger_def empty_world_def DataFrame_def download_page_def fetch_def example_web_def
      Let_def loc_set_def project_file_def main_file_def fetch_target_a fetch_target_main)

lemma ledger_second_start:
  "index (last_downloaded second_start) = [''main'', ''ciel_et_terre_projects/A-1.html'']"
  "columns (last_downloaded second_start) = [''last_downloaded'', ''last_download'']"
  "cells (last_downloaded second_start) (''main'', ''last_downloaded'')
     = Some (PStr ''2019-03-05'')"
  "cells (last_downloaded second_start) (''ciel_et_terre_projects/A-1.html'', ''last_download'')
     = Some (PStr ''2019-03-05'')"
  "files second_start (project_file ''A-1'') = None"
  "files second_start main_file = Some ''<html/>''"
  "requests second_start = []"
  by (simp_all add: second_start_def first_run_def get_projects_to_def main_block_def
      world_after_def cache_block_def load_ledger_def
      empty_world_def DataFrame_def download_page_def fetch_def example_web_def Let_def
      read_csv_def to_csv_def loc_set_def project_file_def main_file_def isoformat_example)

lemma second_main_block:
  "main_block example_web now second_start = Inr (''<html/>'', second_start)"
  by (simp add: main_block_def ledger_second_start)

text \<open>
  Claim C2. The first run fetches the listing page and the page of \<open>A-1\<close> on 5 March
  2019 and writes the ledger. Read back the next day, the ledger has the row \<open>main\<close>
  and one more row, labelled with the path of the file and not with the title; the date
  of that row stands in the column \<open>last_download\<close>, not in \<open>last_downloaded\<close>, as the
  text \<open>2019-03-05\<close>, which the format \<^verbatim>\<open>%Y-%m\<close> does not read. With the file gone,
  the second run requests the page again, one day after the first download: the date
  written did not suppress the download.
\<close>

theorem ledger_roundtrip_does_not_suppress:
  "requests first_run
     = [''http://www.ciel-et-terre.net/our-floating-solar-power-plants-references/'',
        ''http://www.ciel-et-terre.net/a'']
   \<and> index (last_downloaded second_start) = [''main'', ''ciel_et_terre_projects/A-1.html'']
   \<and> columns (last_downloaded second_start) = [''last_downloaded'', ''last_download'']
   \<and> cells (last_downloaded second_start) (''ciel_et_terre_projects/A-1.html'', ''last_download'')
       = Some (PStr ''2019-03-05'')
   \<and> files second_start (project_file ''A-1'') = None
   \<and> requests (world_after
         (get_projects_to example_web (Datetime (Date 2019 3 6) 10 0 0 0) ''A-1'' ''a''
            second_start))
       = [''http://www.ciel-et-terre.net/a'']
   \<and> strptime (Some ''2019-03-05'') Y_m = Inl ValueError"
proof -
  have n: "''A-1'' \<notin> set (index (last_downloaded second_start))"
    by (simp add: ledger_second_start)
  have r: "requests (world_after
         (get_projects_to example_web (Datetime (Date 2019 3 6) 10 0 0 0) ''A-1'' ''a''
            second_start))
       = [''http://www.ciel-et-terre.net/a'']"
    by (simp add: get_projects_to_def second_main_block
        cache_block_unknown[OF ledger_second_start(5) n] download_page_requests
        ledger_second_start(7) fetch_target_a)
  have v: "strptime (Some ''2019-03-05'') Y_m = Inl ValueError" by code_simp
  show ?thesis using first_run_requests ledger_second_start(1,2,4,5) r v by blast
qed

end
